theory Spec2Isabelle
  imports Main
begin

section \<open>The task runner of the Airflow task SDK\<close>

text \<open>
  A shallow embedding of \<^verbatim>\<open>task-sdk/src/airflow/sdk/execution_time/task_runner.py\<close>:
  \<^verbatim>\<open>RuntimeTaskInstance.xcom_pull\<close>, \<^verbatim>\<open>_prepare\<close>, \<^verbatim>\<open>_execute_task\<close>,
  \<^verbatim>\<open>_push_xcom_if_needed\<close>, \<^verbatim>\<open>_handle_current_task_success\<close>,
  \<^verbatim>\<open>_handle_current_task_failed\<close>, \<^verbatim>\<open>_handle_trigger_dag_run\<close> and \<^verbatim>\<open>run\<close>.
  The leading underscore of a private function is dropped (\<open>prepare\<close> is \<^verbatim>\<open>_prepare\<close>), and
  the module-level \<^verbatim>\<open>_xcom_push\<close> is \<open>xcom_push_fn\<close>, beside the method \<open>xcom_push\<close>.
  Python exceptions are values of the type \<open>exn\<close>; a computation that may raise returns
  \<open>exn + 'a\<close> together with the world it leaves behind. Logging, the wall clock
  (\<^verbatim>\<open>end_date\<close> fields, \<^verbatim>\<open>time.sleep\<close>) and the lineage payload of \<^verbatim>\<open>SucceedTask\<close>
  are left out: no branch of the code depends on them.
\<close>

subsection \<open>Python values\<close>

datatype pyval =
    VNone
  | VBool bool
  | VInt int
  | VStr string
  | VList "pyval list"
  | VDict "(pyval \<times> pyval) list"

text \<open>\<^verbatim>\<open>len(v)\<close>; a value without a length raises \<^verbatim>\<open>TypeError\<close> (here \<open>None\<close>).\<close>

fun py_len :: "pyval \<Rightarrow> nat option" where
  "py_len (VStr s) = Some (length s)"
| "py_len (VList xs) = Some (length xs)"
| "py_len (VDict kvs) = Some (length kvs)"
| "py_len v = None"

text \<open>\<^verbatim>\<open>isinstance(key, str)\<close> for every key of a mapping.\<close>

fun is_str :: "pyval \<Rightarrow> bool" where
  "is_str (VStr s) = True"
| "is_str v = False"

fun str_of :: "pyval \<Rightarrow> string" where
  "str_of (VStr s) = s"
| "str_of v = []"

subsection \<open>States and messages\<close>

text \<open>The members of \<^verbatim>\<open>TerminalTIState\<close> and \<^verbatim>\<open>IntermediateTIState\<close> that \<^verbatim>\<open>run\<close> returns.\<close>

datatype ti_state = SUCCESS | FAILED | SKIPPED | UP_FOR_RETRY | UP_FOR_RESCHEDULE | DEFERRED

text \<open>
  The requests the runner writes to the supervisor. \<^verbatim>\<open>TriggerDagRun\<close> carries dag id, run id,
  logical date, conf and \<^verbatim>\<open>reset_dag_run\<close>; \<^verbatim>\<open>DeferTask\<close> carries classpath, trigger kwargs,
  trigger timeout, next method and next kwargs.
\<close>

datatype to_supervisor =
    SetRenderedFields "(string \<times> pyval) list"
  | SkipDownstreamTasks "string list"
  | TriggerDagRun string string "int option" pyval bool
  | GetDagRunState string string
  | DeferTask string "(string \<times> pyval) list" "int option" string "(string \<times> pyval) list"
  | TaskState ti_state
  | RescheduleTask int
  | RetryTask
  | SucceedTask

text \<open>
  The final outcome reports among the requests: the messages \<^verbatim>\<open>run\<close> binds to \<^verbatim>\<open>msg\<close>.
\<close>

fun is_outcome_msg :: "to_supervisor \<Rightarrow> bool" where
  "is_outcome_msg (DeferTask c k t m a) = True"
| "is_outcome_msg (TaskState s) = True"
| "is_outcome_msg (RescheduleTask d) = True"
| "is_outcome_msg RetryTask = True"
| "is_outcome_msg SucceedTask = True"
| "is_outcome_msg m = False"

datatype error_type = DAGRUN_ALREADY_EXISTS | GENERIC_ERROR

text \<open>The replies of the supervisor that \<^verbatim>\<open>_handle_trigger_dag_run\<close> tells apart.\<close>

datatype to_task =
    ErrorResponse error_type
  | DagRunStateResult string
  | OKResponse

subsection \<open>Exceptions\<close>

text \<open>The attributes of \<^verbatim>\<open>DagRunTriggerException\<close> and \<^verbatim>\<open>TaskDeferred\<close> that the runner reads.\<close>

record drte =
  trigger_dag_id :: string
  dag_run_id :: string
  logical_date :: "int option"
  conf :: pyval
  reset_dag_run :: bool
  skip_when_already_exists :: bool
  wait_for_completion :: bool
  allowed_states :: "string list"
  failed_states :: "string list"

record deferral =
  trigger_classpath :: string
  trigger_kwargs :: "(string \<times> pyval) list"
  timeout :: "int option"
  method_name :: string
  kwargs :: "(string \<times> pyval) list option"

text \<open>\<^verbatim>\<open>skip.tasks\<close> is a list, or a single task that \<^verbatim>\<open>run\<close> wraps in a list.\<close>

datatype skipped_tasks = TaskList "string list" | SingleTask string

text \<open>
  An exception is modelled by the first \<^verbatim>\<open>except\<close> clause of \<^verbatim>\<open>run\<close> that catches it:
  \<open>AirflowException\<close> is an \<^verbatim>\<open>AirflowException\<close> that no earlier clause catches, and
  \<open>OtherBaseException\<close> is whatever only the last clause, \<^verbatim>\<open>except BaseException\<close>, catches
  (\<^verbatim>\<open>KeyboardInterrupt\<close>, \<^verbatim>\<open>RuntimeError\<close>, ...). The errors raised by the runner itself
  (\<open>XComForMappingNotPushed\<close>, \<open>UnmappableXComTypePushed\<close>, \<open>TypeError\<close>, \<open>AttributeError\<close>) are
  caught by the \<^verbatim>\<open>AirflowException\<close> clause or by the last one, which do the same.
\<close>

datatype exn =
    DownstreamTasksSkipped skipped_tasks
  | DagRunTriggerException drte
  | TaskDeferred deferral
  | AirflowSkipException
  | AirflowRescheduleException int
  | AirflowFailException
  | AirflowSensorTimeout
  | AirflowTaskTimeout
  | AirflowException
  | AirflowTaskTerminated
  | SystemExit
  | XComForMappingNotPushed
  | UnmappableXComTypePushed pyval
  | TypeError
  | AttributeError
  | OtherBaseException string

subsection \<open>The task instance\<close>

text \<open>The fields of \<^verbatim>\<open>TIRunContext\<close> that the runner reads.\<close>

record ti_run_context =
  should_retry :: bool
  xcom_keys_to_clear :: "string list"
  next_method :: "string option"

text \<open>
  The attributes of the operator that the runner reads. \<open>has_mapped_dependants\<close> is
  \<^verbatim>\<open>next(ti.task.iter_mapped_dependants(), None) is not None\<close>; \<open>execution_timeout\<close> is a
  \<^verbatim>\<open>timedelta\<close> in microseconds, or \<open>None\<close>.
\<close>

record operator =
  do_xcom_push :: bool
  multiple_outputs :: bool
  has_mapped_dependants :: bool
  is_mapped :: bool
  execution_timeout :: "int option"

record runtime_ti =
  dag_id :: string
  task_id :: string
  run_id :: string
  map_index :: "int option"
  task :: operator
  ti_context_from_server :: "ti_run_context option"

subsection \<open>xcom_pull\<close>

text \<open>The arguments of \<^verbatim>\<open>XCom.get_one\<close>, in the order \<^verbatim>\<open>xcom_pull\<close> passes them.\<close>

record xcom_query =
  q_run_id :: string
  q_key :: string
  q_task_id :: string
  q_dag_id :: string
  q_map_index :: "int option"
  q_include_prior_dates :: bool

text \<open>
  \<^verbatim>\<open>task_ids: str | Iterable[str] | None\<close> and
  \<^verbatim>\<open>map_indexes: int | Iterable[int] | None | ArgNotSet\<close>; \<open>MapIndexesOther\<close> is a value of
  any other type.
\<close>

datatype task_ids_arg = TaskIdsNone | TaskIdsStr string | TaskIdsIter "string list"

datatype map_indexes_arg =
    NOTSET
  | MapIndexesInt int
  | MapIndexesNone
  | MapIndexesIter "int option list"
  | MapIndexesOther

definition resolve_task_ids :: "runtime_ti \<Rightarrow> task_ids_arg \<Rightarrow> string list" where
  "resolve_task_ids ti task_ids =
     (case task_ids of
        TaskIdsNone \<Rightarrow> [task_id ti]
      | TaskIdsStr s \<Rightarrow> [s]
      | TaskIdsIter xs \<Rightarrow> xs)"

definition resolve_map_indexes :: "runtime_ti \<Rightarrow> map_indexes_arg \<Rightarrow> exn + int option list" where
  "resolve_map_indexes ti map_indexes =
     (case map_indexes of
        NOTSET \<Rightarrow> Inr [map_index ti]
      | MapIndexesInt i \<Rightarrow> Inr [Some i]
      | MapIndexesNone \<Rightarrow> Inr [None]
      | MapIndexesIter xs \<Rightarrow> Inr xs
      | MapIndexesOther \<Rightarrow> Inl TypeError)"

text \<open>The body of the loop over the product: one fetch, \<open>None\<close> replaced by the default.\<close>

definition pull_one ::
  "(xcom_query \<Rightarrow> pyval) \<Rightarrow> string \<Rightarrow> string \<Rightarrow> string \<Rightarrow> bool \<Rightarrow> pyval \<Rightarrow>
   string \<times> int option \<Rightarrow> pyval" where
  "pull_one get_one run key dag include_prior_dates dflt tm =
     (let val = get_one \<lparr>q_run_id = run, q_key = key, q_task_id = fst tm, q_dag_id = dag,
                            q_map_index = snd tm, q_include_prior_dates = include_prior_dates\<rparr>
      in if val = VNone then dflt else val)"

text \<open>
  \<^verbatim>\<open>xcom_pull(task_ids, dag_id, key, include_prior_dates, *, map_indexes, default, run_id)\<close>,
  with \<^verbatim>\<open>XCom.get_one\<close> as a parameter.
\<close>

definition xcom_pull ::
  "(xcom_query \<Rightarrow> pyval) \<Rightarrow> runtime_ti \<Rightarrow> task_ids_arg \<Rightarrow> string option \<Rightarrow> string \<Rightarrow> bool \<Rightarrow>
   map_indexes_arg \<Rightarrow> pyval \<Rightarrow> string option \<Rightarrow> exn + pyval" where
  "xcom_pull get_one ti task_ids dag_id_arg key include_prior_dates map_indexes dflt run_id_arg =
     (let dag = (case dag_id_arg of None \<Rightarrow> dag_id ti | Some d \<Rightarrow> d);
          run = (case run_id_arg of None \<Rightarrow> run_id ti | Some r \<Rightarrow> r);
          tids = resolve_task_ids ti task_ids
      in case resolve_map_indexes ti map_indexes of
           Inl e \<Rightarrow> Inl e
         | Inr map_indexes_iterable \<Rightarrow>
             (let xcoms = map (pull_one get_one run key dag include_prior_dates dflt)
                              (List.product tids map_indexes_iterable)
              in if length xcoms = 1 then Inr (xcoms ! 0) else Inr (VList xcoms)))"

text \<open>
  Modelled from the spec: \<^verbatim>\<open>XCom.get_one\<close> (in \<^verbatim>\<open>airflow/sdk/execution_time/xcom.py\<close>) is
  missing. An exchanged artifact is identified by its composite key and holds at most one
  value; a lookup that matches nothing yields \<^verbatim>\<open>None\<close>.
\<close>

definition XCom_get_one :: "(xcom_query \<rightharpoonup> pyval) \<Rightarrow> xcom_query \<Rightarrow> pyval" where
  "XCom_get_one store q = (case store q of None \<Rightarrow> VNone | Some v \<Rightarrow> v)"

subsection \<open>The world of the runner\<close>

text \<open>
  What the runner leaves behind: the requests written through \<^verbatim>\<open>SUPERVISOR_COMMS\<close>, in
  order; how many replies it has read; the calls of \<^verbatim>\<open>XCom.set\<close> (key, value, mapped
  length) and of \<^verbatim>\<open>XCom.delete\<close>, in order; and how often the task body was started.
  Writing a request and the calls of \<^verbatim>\<open>XCom.set\<close> and \<^verbatim>\<open>XCom.delete\<close> are taken to succeed.
\<close>

record world =
  sent :: "to_supervisor list"
  received :: nat
  xcom_set :: "(string \<times> pyval \<times> nat option) list"
  xcom_deleted :: "string list"
  body_runs :: nat

definition send_request :: "to_supervisor \<Rightarrow> world \<Rightarrow> world" where
  "send_request msg w = w\<lparr>sent := sent w @ [msg]\<rparr>"

text \<open>\<^verbatim>\<open>get_message\<close> reads the next reply of the supervisor, given as a stream.\<close>

definition get_message :: "(nat \<Rightarrow> to_task) \<Rightarrow> world \<Rightarrow> to_task \<times> world" where
  "get_message inbox w = (inbox (received w), w\<lparr>received := Suc (received w)\<rparr>)"

text \<open>\<^verbatim>\<open>_xcom_push(ti, key, value, mapped_length)\<close> and \<^verbatim>\<open>ti.xcom_push(key, value)\<close>.\<close>

definition xcom_push_fn :: "string \<Rightarrow> pyval \<Rightarrow> nat option \<Rightarrow> world \<Rightarrow> world" where
  "xcom_push_fn key val mapped_length w = w\<lparr>xcom_set := xcom_set w @ [(key, val, mapped_length)]\<rparr>"

definition xcom_push :: "string \<Rightarrow> pyval \<Rightarrow> world \<Rightarrow> world" where
  "xcom_push key val w = xcom_push_fn key val None w"

definition outcome_count :: "world \<Rightarrow> nat" where
  "outcome_count w = length (filter is_outcome_msg (sent w))"

subsection \<open>What the code outside the runner does\<close>

text \<open>
  The behaviour of the calls into code that is not the runner's. \<open>prepare_raises\<close>: the
  exception, if any, that escapes \<^verbatim>\<open>get_hostname\<close>, \<^verbatim>\<open>prepare_for_execution\<close>,
  \<^verbatim>\<open>get_template_env\<close>, \<^verbatim>\<open>render_templates\<close> or \<^verbatim>\<open>_serialize_rendered_fields\<close>;
  \<open>rendered_fields\<close>: the result of the latter; \<open>pre_execute_hook\<close> and \<open>post_execute_hook\<close>:
  \<open>None\<close> when the operator has no such hook, otherwise what running it raises;
  \<open>execute_body\<close> and \<open>resume_execution\<close>: what \<^verbatim>\<open>task.execute\<close> and
  \<^verbatim>\<open>task.resume_execution\<close> return or raise (under the deadline, when there is one);
  \<open>inbox\<close>: the replies of the supervisor; \<open>is_mappable_value\<close>: the helper of that name.
  Listener hooks and state-change callbacks swallow what they catch and change nothing here.
\<close>

record env =
  prepare_raises :: "exn option"
  rendered_fields :: "(string \<times> pyval) list"
  pre_execute_hook :: "exn option option"
  execute_body :: "exn + pyval"
  resume_execution :: "exn + pyval"
  post_execute_hook :: "exn option option"
  inbox :: "nat \<Rightarrow> to_task"
  is_mappable_value :: "pyval \<Rightarrow> bool"

subsection \<open>_prepare, _execute_task, _push_xcom_if_needed\<close>

text \<open>\<^verbatim>\<open>_prepare\<close> returns \<^verbatim>\<open>None\<close> whenever it returns.\<close>

definition prepare :: "env \<Rightarrow> world \<Rightarrow> (exn + to_supervisor option) \<times> world" where
  "prepare en w =
     (case prepare_raises en of
        Some e \<Rightarrow> (Inl e, w)
      | None \<Rightarrow>
          (Inr None,
           if rendered_fields en \<noteq> [] then send_request (SetRenderedFields (rendered_fields en)) w
           else w))"

text \<open>
  The callable \<^verbatim>\<open>_execute_task\<close> runs: \<^verbatim>\<open>task.resume_execution\<close> when the server context
  has a truthy \<^verbatim>\<open>next_method\<close>, else \<^verbatim>\<open>task.execute\<close>.
\<close>

definition select_execute :: "runtime_ti \<Rightarrow> env \<Rightarrow> exn + pyval" where
  "select_execute ti en =
     (case ti_context_from_server ti of
        None \<Rightarrow> execute_body en
      | Some c \<Rightarrow>
          (case next_method c of
             None \<Rightarrow> execute_body en
           | Some m \<Rightarrow> if m \<noteq> [] then resume_execution en else execute_body en))"

text \<open>\<^verbatim>\<open>ctx.run(execute, context=context)\<close>: the body is started, and returns or raises.\<close>

definition run_body :: "runtime_ti \<Rightarrow> env \<Rightarrow> world \<Rightarrow> (exn + pyval) \<times> world" where
  "run_body ti en w = (select_execute ti en, w\<lparr>body_runs := Suc (body_runs w)\<rparr>)"

text \<open>
  \<^verbatim>\<open>_execute_task\<close>. \<^verbatim>\<open>if task.execution_timeout:\<close> is the truth value of a
  \<^verbatim>\<open>timedelta\<close>: false for \<^verbatim>\<open>None\<close> and for \<^verbatim>\<open>timedelta(0)\<close>.
\<close>

definition execute_task :: "runtime_ti \<Rightarrow> env \<Rightarrow> world \<Rightarrow> (exn + pyval) \<times> world" where
  "execute_task ti en w =
     (case pre_execute_hook en of
        Some (Some e) \<Rightarrow> (Inl e, w)
      | _ \<Rightarrow>
          (case (case execution_timeout (task ti) of
                   None \<Rightarrow> run_body ti en w
                 | Some timeout_us \<Rightarrow>
                     if timeout_us \<noteq> 0 then
                       (if timeout_us \<le> 0 then (Inl AirflowTaskTimeout, w) else run_body ti en w)
                     else run_body ti en w) of
             (Inl e, w') \<Rightarrow> (Inl e, w')
           | (Inr result, w') \<Rightarrow>
               (case post_execute_hook en of
                  Some (Some e) \<Rightarrow> (Inl e, w')
                | _ \<Rightarrow> (Inr result, w'))))"

text \<open>The loop \<^verbatim>\<open>for k, v in result.items(): ti.xcom_push(k, v)\<close>.\<close>

fun push_items :: "(pyval \<times> pyval) list \<Rightarrow> world \<Rightarrow> world" where
  "push_items [] w = w"
| "push_items ((k, v) # kvs) w = push_items kvs (xcom_push (str_of k) v w)"

definition push_xcom_if_needed :: "pyval \<Rightarrow> runtime_ti \<Rightarrow> env \<Rightarrow> world \<Rightarrow> (exn + unit) \<times> world" where
  "push_xcom_if_needed result ti en w =
     (let xcom_value = (if do_xcom_push (task ti) then result else VNone);
          mapped = (has_mapped_dependants (task ti) \<or> is_mapped (task ti))
      in if xcom_value = VNone then
           (if mapped then (Inl XComForMappingNotPushed, w) else (Inr (), w))
         else
           (case (if mapped then
                    (if \<not> is_mappable_value en xcom_value then Inl (UnmappableXComTypePushed xcom_value)
                     else (case py_len xcom_value of
                             None \<Rightarrow> Inl TypeError
                           | Some n \<Rightarrow> Inr (Some n)))
                  else Inr None) of
              Inl e \<Rightarrow> (Inl e, w)
            | Inr mapped_length \<Rightarrow>
                (case (if multiple_outputs (task ti) then
                         (case xcom_value of
                            VDict kvs \<Rightarrow>
                              if list_all (\<lambda>kv. is_str (fst kv)) kvs then Inr (push_items kvs w)
                              else Inl TypeError
                          | _ \<Rightarrow> Inl TypeError)
                       else Inr w) of
                   Inl e \<Rightarrow> (Inl e, w)
                 | Inr w' \<Rightarrow> (Inr (), xcom_push_fn ''return_value'' result mapped_length w'))))"

subsection \<open>The outcome handlers\<close>

definition handle_current_task_success :: "to_supervisor \<times> ti_state" where
  "handle_current_task_success = (SucceedTask, SUCCESS)"

definition handle_current_task_failed :: "runtime_ti \<Rightarrow> to_supervisor \<times> ti_state" where
  "handle_current_task_failed ti =
     (case ti_context_from_server ti of
        None \<Rightarrow> (TaskState FAILED, FAILED)
      | Some c \<Rightarrow> if should_retry c then (RetryTask, UP_FOR_RETRY) else (TaskState FAILED, FAILED))"

text \<open>
  The \<^verbatim>\<open>while True\<close> loop of \<^verbatim>\<open>_handle_trigger_dag_run\<close>: \<open>Inr True\<close> when the run reached a
  failed state (the function returns from inside the loop), \<open>Inr False\<close> when it reached an
  allowed state (\<^verbatim>\<open>break\<close>). A reply without a \<^verbatim>\<open>state\<close> attribute raises. A loop that never
  ends has the value \<open>None\<close>.
\<close>

partial_function (option) poll_dag_run ::
  "drte \<Rightarrow> (nat \<Rightarrow> to_task) \<Rightarrow> world \<Rightarrow> ((exn + bool) \<times> world) option" where
  "poll_dag_run d inb w =
     (case get_message inb (send_request (GetDagRunState (trigger_dag_id d) (dag_run_id d)) w) of
        (comms_msg, w') \<Rightarrow>
          (case comms_msg of
             DagRunStateResult s \<Rightarrow>
               if s \<in> set (failed_states d) then Some (Inr True, w')
               else if s \<in> set (allowed_states d) then Some (Inr False, w')
               else poll_dag_run d inb w'
           | _ \<Rightarrow> Some (Inl AttributeError, w')))"

definition handle_trigger_dag_run ::
  "drte \<Rightarrow> env \<Rightarrow> world \<Rightarrow> ((exn + to_supervisor \<times> ti_state) \<times> world) option" where
  "handle_trigger_dag_run d en w =
     (case get_message (inbox en)
             (send_request (TriggerDagRun (trigger_dag_id d) (dag_run_id d) (logical_date d)
                              (conf d) (reset_dag_run d)) w) of
        (comms_msg, w1) \<Rightarrow>
          if comms_msg = ErrorResponse DAGRUN_ALREADY_EXISTS then
            (if skip_when_already_exists d then Some (Inr (TaskState SKIPPED, SKIPPED), w1)
             else Some (Inr (TaskState FAILED, FAILED), w1))
          else
            (let w2 = xcom_push ''trigger_run_id'' (VStr (dag_run_id d)) w1
             in if wait_for_completion d then
                  (case poll_dag_run d (inbox en) w2 of
                     None \<Rightarrow> None
                   | Some (Inl e, w3) \<Rightarrow> Some (Inl e, w3)
                   | Some (Inr failed, w3) \<Rightarrow>
                       if failed then Some (Inr (TaskState FAILED, FAILED), w3)
                       else Some (Inr handle_current_task_success, w3))
                else Some (Inr handle_current_task_success, w2)))"

subsection \<open>run\<close>

text \<open>
  The body of the \<^verbatim>\<open>try\<close> statement of \<^verbatim>\<open>run\<close>: \<open>Inl e\<close> when \<open>e\<close> is raised, otherwise the
  values of \<^verbatim>\<open>msg\<close> and \<^verbatim>\<open>state\<close> it ends with (also through the early \<^verbatim>\<open>return\<close>).
\<close>

definition clear_xcom_keys :: "runtime_ti \<Rightarrow> world \<Rightarrow> world" where
  "clear_xcom_keys ti w =
     (case ti_context_from_server ti of
        None \<Rightarrow> w
      | Some c \<Rightarrow> w\<lparr>xcom_deleted := xcom_deleted w @ xcom_keys_to_clear c\<rparr>)"

definition try_block ::
  "runtime_ti \<Rightarrow> env \<Rightarrow> world \<Rightarrow> (exn + to_supervisor option \<times> ti_state) \<times> world" where
  "try_block ti en w =
     (let w1 = clear_xcom_keys ti w
      in case prepare en w1 of
           (Inl e, w2) \<Rightarrow> (Inl e, w2)
         | (Inr (Some early_exit), w2) \<Rightarrow> (Inr (Some early_exit, FAILED), w2)
         | (Inr None, w2) \<Rightarrow>
             (case execute_task ti en w2 of
                (Inl e, w3) \<Rightarrow> (Inl e, w3)
              | (Inr result, w3) \<Rightarrow>
                  (case push_xcom_if_needed result ti en w3 of
                     (Inl e, w4) \<Rightarrow> (Inl e, w4)
                   | (Inr u, w4) \<Rightarrow>
                       (Inr (Some (fst handle_current_task_success),
                             snd handle_current_task_success), w4))))"

text \<open>
  The \<^verbatim>\<open>except\<close> clauses of \<^verbatim>\<open>run\<close>, in their order: the values of \<^verbatim>\<open>msg\<close>, \<^verbatim>\<open>state\<close> and
  \<^verbatim>\<open>error\<close> after the clause, or the exception that escapes it. \<open>retry_or_fail\<close> is the body
  that three of them share: \<^verbatim>\<open>msg, state = _handle_current_task_failed(ti); error = e\<close>.
\<close>

definition retry_or_fail ::
  "exn \<Rightarrow> runtime_ti \<Rightarrow> world \<Rightarrow> ((exn + to_supervisor option \<times> ti_state \<times> exn option) \<times> world) option" where
  "retry_or_fail e ti w =
     Some (Inr (Some (fst (handle_current_task_failed ti)), snd (handle_current_task_failed ti), Some e), w)"

fun handle_exception ::
  "exn \<Rightarrow> runtime_ti \<Rightarrow> env \<Rightarrow> world \<Rightarrow>
   ((exn + to_supervisor option \<times> ti_state \<times> exn option) \<times> world) option" where
  "handle_exception (DownstreamTasksSkipped skip) ti en w =
     (let tasks_to_skip = (case skip of TaskList xs \<Rightarrow> xs | SingleTask t \<Rightarrow> [t]);
          w1 = send_request (SkipDownstreamTasks tasks_to_skip) w
      in Some (Inr (Some (fst handle_current_task_success), snd handle_current_task_success, None), w1))"
| "handle_exception (DagRunTriggerException d) ti en w =
     (case handle_trigger_dag_run d en w of
        None \<Rightarrow> None
      | Some (Inl e, w1) \<Rightarrow> Some (Inl e, w1)
      | Some (Inr (msg, state), w1) \<Rightarrow> Some (Inr (Some msg, state, None), w1))"
| "handle_exception (TaskDeferred d) ti en w =
     Some (Inr (Some (DeferTask (trigger_classpath d) (trigger_kwargs d) (timeout d) (method_name d)
                        (case kwargs d of None \<Rightarrow> [] | Some k \<Rightarrow> k)),
                DEFERRED, None), w)"
| "handle_exception AirflowSkipException ti en w =
     Some (Inr (Some (TaskState SKIPPED), SKIPPED, None), w)"
| "handle_exception (AirflowRescheduleException reschedule_date) ti en w =
     Some (Inr (Some (RescheduleTask reschedule_date), UP_FOR_RESCHEDULE, None), w)"
| "handle_exception AirflowFailException ti en w =
     Some (Inr (Some (TaskState FAILED), FAILED, Some AirflowFailException), w)"
| "handle_exception AirflowSensorTimeout ti en w =
     Some (Inr (Some (TaskState FAILED), FAILED, Some AirflowSensorTimeout), w)"
| "handle_exception AirflowTaskTimeout ti en w = retry_or_fail AirflowTaskTimeout ti w"
| "handle_exception AirflowException ti en w = retry_or_fail AirflowException ti w"
| "handle_exception AirflowTaskTerminated ti en w =
     Some (Inr (Some (TaskState FAILED), FAILED, Some AirflowTaskTerminated), w)"
| "handle_exception SystemExit ti en w = retry_or_fail SystemExit ti w"
| "handle_exception e ti en w = retry_or_fail e ti w"

text \<open>The \<^verbatim>\<open>finally\<close> clause: \<^verbatim>\<open>if msg: SUPERVISOR_COMMS.send_request(msg=msg, log=log)\<close>.\<close>

definition finally_send :: "to_supervisor option \<Rightarrow> world \<Rightarrow> world" where
  "finally_send msg w = (case msg of None \<Rightarrow> w | Some m \<Rightarrow> send_request m w)"

text \<open>
  \<^verbatim>\<open>run\<close> returns \<^verbatim>\<open>(state, msg, error)\<close>, or an exception escapes it; \<open>None\<close> when it does
  neither.
\<close>

definition run ::
  "runtime_ti \<Rightarrow> env \<Rightarrow> world \<Rightarrow>
   ((exn + ti_state \<times> to_supervisor option \<times> exn option) \<times> world) option" where
  "run ti en w =
     (case try_block ti en w of
        (Inr (msg, state), w1) \<Rightarrow> Some (Inr (state, msg, None), finally_send msg w1)
      | (Inl e, w1) \<Rightarrow>
          (case handle_exception e ti en w1 of
             None \<Rightarrow> None
           | Some (Inl e', w2) \<Rightarrow> Some (Inl e', w2)
           | Some (Inr (msg, state, error), w2) \<Rightarrow>
               Some (Inr (state, msg, error), finally_send msg w2)))"

subsection \<open>Notions used in the statements\<close>

text \<open>
  The task body is reached: \<^verbatim>\<open>_prepare\<close> and the pre-execute hook raise nothing, and the
  fast-fail test of \<^verbatim>\<open>_execute_task\<close> does not fire.
\<close>

definition body_reached :: "runtime_ti \<Rightarrow> env \<Rightarrow> bool" where
  "body_reached ti en \<longleftrightarrow>
     prepare_raises en = None \<and>
     (case pre_execute_hook en of Some (Some e) \<Rightarrow> False | _ \<Rightarrow> True) \<and>
     (case execution_timeout (task ti) of None \<Rightarrow> True | Some t \<Rightarrow> 0 \<le> t)"


text \<open>
  The world after the stale keys are cleared, \<^verbatim>\<open>_prepare\<close> has returned and the body has been
  started once: where \<^verbatim>\<open>_push_xcom_if_needed\<close> or the \<^verbatim>\<open>except\<close> clauses start.
\<close>

definition world_after_body :: "runtime_ti \<Rightarrow> env \<Rightarrow> world \<Rightarrow> world" where
  "world_after_body ti en w = (snd (prepare en (clear_xcom_keys ti w)))\<lparr>body_runs := Suc (body_runs w)\<rparr>"

text \<open>The run context says that a retry is still allowed.\<close>

definition retry_allowed :: "runtime_ti \<Rightarrow> bool" where
  "retry_allowed ti = (case ti_context_from_server ti of None \<Rightarrow> False | Some c \<Rightarrow> should_retry c)"

text \<open>
  The errors that reach a clause calling \<^verbatim>\<open>_handle_current_task_failed\<close>:
  \<^verbatim>\<open>except (AirflowTaskTimeout, AirflowException)\<close>, \<^verbatim>\<open>except SystemExit\<close> and
  \<^verbatim>\<open>except BaseException\<close>.
\<close>

fun retry_clause :: "exn \<Rightarrow> bool" where
  "retry_clause (DownstreamTasksSkipped skip) = False"
| "retry_clause (DagRunTriggerException d) = False"
| "retry_clause (TaskDeferred d) = False"
| "retry_clause AirflowSkipException = False"
| "retry_clause (AirflowRescheduleException reschedule_date) = False"
| "retry_clause AirflowFailException = False"
| "retry_clause AirflowSensorTimeout = False"
| "retry_clause AirflowTaskTerminated = False"
| "retry_clause e = True"

fun is_trigger :: "exn \<Rightarrow> bool" where
  "is_trigger (DagRunTriggerException d) = True"
| "is_trigger e = False"

subsection \<open>Example inputs\<close>

definition w0 :: world where
  "w0 = \<lparr>sent = [], received = 0, xcom_set = [], xcom_deleted = [], body_runs = 0\<rparr>"

definition ex_task :: operator where
  "ex_task = \<lparr>do_xcom_push = True, multiple_outputs = False, has_mapped_dependants = False,
              is_mapped = False, execution_timeout = None\<rparr>"

definition ex_ti :: runtime_ti where
  "ex_ti = \<lparr>dag_id = ''dag'', task_id = ''t1'', run_id = ''run1'', map_index = Some (- 1),
            task = ex_task,
            ti_context_from_server =
              Some \<lparr>should_retry = True, xcom_keys_to_clear = [], next_method = None\<rparr>\<rparr>"

text \<open>\<^verbatim>\<open>is_mappable_value\<close> accepting lists and dicts; replies that are plain acknowledgements.\<close>

fun ex_mappable :: "pyval \<Rightarrow> bool" where
  "ex_mappable (VList xs) = True"
| "ex_mappable (VDict kvs) = True"
| "ex_mappable v = False"

definition ex_env :: env where
  "ex_env = \<lparr>prepare_raises = None, rendered_fields = [], pre_execute_hook = None,
             execute_body = Inr (VInt 42), resume_execution = Inr VNone,
             post_execute_hook = None, inbox = (\<lambda>n. OKResponse),
             is_mappable_value = ex_mappable\<rparr>"

text \<open>A task whose \<^verbatim>\<open>execution_timeout\<close> is \<^verbatim>\<open>timedelta(0)\<close>.\<close>

definition zero_timeout_ti :: runtime_ti where
  "zero_timeout_ti = ex_ti\<lparr>task := ex_task\<lparr>execution_timeout := Some 0\<rparr>\<rparr>"






text \<open>A trigger request that tolerates an existing run, and a supervisor that reports one.\<close>

definition existing_drte :: drte where
  "existing_drte = \<lparr>trigger_dag_id = ''other'', dag_run_id = ''manual_1'', logical_date = None,
                    conf = VNone, reset_dag_run = False, skip_when_already_exists = True,
                    wait_for_completion = True, allowed_states = [''success''],
                    failed_states = [''failed'']\<rparr>"

definition already_exists_env :: env where
  "already_exists_env = ex_env\<lparr>execute_body := Inl (DagRunTriggerException existing_drte),
                               inbox := (\<lambda>n. ErrorResponse DAGRUN_ALREADY_EXISTS)\<rparr>"

text \<open>A store with one artifact, pushed by task \<open>a\<close>, and the key of task \<open>b\<close>.\<close>

definition ex_store :: "xcom_query \<rightharpoonup> pyval" where
  "ex_store = [\<lparr>q_run_id = ''run1'', q_key = ''return_value'', q_task_id = ''a'', q_dag_id = ''dag'',
               q_map_index = Some (- 1), q_include_prior_dates = False\<rparr> \<mapsto> VInt 42]"

definition ex_query :: xcom_query where
  "ex_query = \<lparr>q_run_id = ''run1'', q_key = ''return_value'', q_task_id = ''b'', q_dag_id = ''dag'',
               q_map_index = Some (- 1), q_include_prior_dates = False\<rparr>"

section \<open>Properties\<close>

lemmas ex_defs = ex_ti_def ex_env_def ex_task_def w0_def

lemmas step_defs = run_def try_block_def execute_task_def run_body_def select_execute_def
  clear_xcom_keys_def prepare_def send_request_def finally_send_def push_xcom_if_needed_def
  xcom_push_fn_def handle_current_task_success_def

subsection \<open>The world under the runner's steps\<close>

lemma send_request_fields [simp]:
  "sent (send_request m w) = sent w @ [m]"
  "received (send_request m w) = received w"
  "xcom_set (send_request m w) = xcom_set w"
  "xcom_deleted (send_request m w) = xcom_deleted w"
  "body_runs (send_request m w) = body_runs w"
  by (simp_all add: send_request_def)

lemma xcom_push_fn_fields [simp]:
  "sent (xcom_push_fn k v n w) = sent w"
  "received (xcom_push_fn k v n w) = received w"
  "xcom_set (xcom_push_fn k v n w) = xcom_set w @ [(k, v, n)]"
  "xcom_deleted (xcom_push_fn k v n w) = xcom_deleted w"
  "body_runs (xcom_push_fn k v n w) = body_runs w"
  by (simp_all add: xcom_push_fn_def)

lemma clear_xcom_keys_fields [simp]:
  "sent (clear_xcom_keys ti w) = sent w"
  "received (clear_xcom_keys ti w) = received w"
  "xcom_set (clear_xcom_keys ti w) = xcom_set w"
  "body_runs (clear_xcom_keys ti w) = body_runs w"
  by (simp_all add: clear_xcom_keys_def split: option.splits)

lemma prepare_fields [simp]:
  "received (snd (prepare en w)) = received w"
  "xcom_set (snd (prepare en w)) = xcom_set w"
  "xcom_deleted (snd (prepare en w)) = xcom_deleted w"
  "body_runs (snd (prepare en w)) = body_runs w"
  by (simp_all add: prepare_def split: option.splits)

lemma outcome_count_send:
  "outcome_count (send_request m w) = outcome_count w + (if is_outcome_msg m then 1 else 0)"
  by (simp add: outcome_count_def)

lemma outcome_count_updates [simp]:
  "outcome_count (w\<lparr>received := r\<rparr>) = outcome_count w"
  "outcome_count (w\<lparr>xcom_set := x\<rparr>) = outcome_count w"
  "outcome_count (w\<lparr>xcom_deleted := y\<rparr>) = outcome_count w"
  "outcome_count (w\<lparr>body_runs := b\<rparr>) = outcome_count w"
  "outcome_count (xcom_push_fn k v n w) = outcome_count w"
  "outcome_count (clear_xcom_keys ti w) = outcome_count w"
  "outcome_count (snd (prepare en w)) = outcome_count w"
  by (simp_all add: outcome_count_def prepare_def split: option.splits)

lemma finally_send_fields [simp]:
  "body_runs (finally_send msg w) = body_runs w"
  "xcom_set (finally_send msg w) = xcom_set w"
  "received (finally_send msg w) = received w"
  by (simp_all add: finally_send_def split: option.splits)

lemma push_items_sent [simp]: "sent (push_items kvs w) = sent w"
  by (induction kvs arbitrary: w) (auto simp: xcom_push_def)

lemma push_items_received [simp]: "received (push_items kvs w) = received w"
  by (induction kvs arbitrary: w) (auto simp: xcom_push_def)

lemma push_items_body_runs [simp]: "body_runs (push_items kvs w) = body_runs w"
  by (induction kvs arbitrary: w) (auto simp: xcom_push_def)

lemma push_items_xcom_set [simp]:
  "xcom_set (push_items kvs w) = xcom_set w @ map (\<lambda>kv. (str_of (fst kv), snd kv, None)) kvs"
  by (induction kvs arbitrary: w) (auto simp: xcom_push_def)



subsection \<open>The try block\<close>

lemma try_block_unfold:
  "try_block ti en w =
     (case prepare_raises en of
        Some e \<Rightarrow> (Inl e, clear_xcom_keys ti w)
      | None \<Rightarrow>
          (case execute_task ti en (snd (prepare en (clear_xcom_keys ti w))) of
             (Inl e, w3) \<Rightarrow> (Inl e, w3)
           | (Inr result, w3) \<Rightarrow>
               (case push_xcom_if_needed result ti en w3 of
                  (Inl e, w4) \<Rightarrow> (Inl e, w4)
                | (Inr u, w4) \<Rightarrow> (Inr (Some SucceedTask, SUCCESS), w4))))"
  by (simp add: try_block_def prepare_def Let_def handle_current_task_success_def
      split: option.splits sum.splits prod.splits)



lemma try_block_prepare_raises:
  assumes "prepare_raises en = Some e"
  shows "try_block ti en w = (Inl e, clear_xcom_keys ti w)"
  using assms by (simp add: try_block_def prepare_def)

lemma execute_task_body_raises:
  assumes "body_reached ti en" and "select_execute ti en = Inl e"
  shows "execute_task ti en w = (Inl e, w\<lparr>body_runs := Suc (body_runs w)\<rparr>)"
  using assms
  by (auto simp: execute_task_def body_reached_def run_body_def split: option.splits)

lemma try_block_body_raises:
  assumes "body_reached ti en" and "select_execute ti en = Inl e"
  shows "try_block ti en w = (Inl e, world_after_body ti en w)"
proof -
  let ?w1 = "clear_xcom_keys ti w"
  have p: "prepare en ?w1 = (Inr None, snd (prepare en ?w1))"
    using assms(1) by (simp add: prepare_def body_reached_def)
  have x: "execute_task ti en (snd (prepare en ?w1))
      = (Inl e, (snd (prepare en ?w1))\<lparr>body_runs := Suc (body_runs w)\<rparr>)"
    using execute_task_body_raises[OF assms, of "snd (prepare en ?w1)"] by simp
  show ?thesis
    unfolding try_block_def Let_def world_after_body_def
    by (subst p) (simp add: x)
qed

lemma run_body_raises:
  assumes "body_reached ti en" and "select_execute ti en = Inl e"
  shows "run ti en w =
     (case handle_exception e ti en (world_after_body ti en w) of
        None \<Rightarrow> None
      | Some (Inl e', w2) \<Rightarrow> Some (Inl e', w2)
      | Some (Inr (msg, state, error), w2) \<Rightarrow> Some (Inr (state, msg, error), finally_send msg w2))"
  by (simp add: run_def try_block_body_raises[OF assms])

lemma handle_current_task_failed_state:
  "snd (handle_current_task_failed ti) = (if retry_allowed ti then UP_FOR_RETRY else FAILED)"
  "fst (handle_current_task_failed ti) = (if retry_allowed ti then RetryTask else TaskState FAILED)"
  by (simp_all add: handle_current_task_failed_def retry_allowed_def split: option.splits)

lemma handle_exception_retry_clause:
  "retry_clause e \<Longrightarrow> handle_exception e ti en w = retry_or_fail e ti w"
  by (cases e) simp_all




lemma execute_task_negative_timeout:
  assumes "execution_timeout (task ti) = Some t" and "t < 0"
      and "pre_execute_hook en = None \<or> pre_execute_hook en = Some None"
  shows "execute_task ti en w = (Inl AirflowTaskTimeout, w)"
  using assms by (auto simp: execute_task_def)

subsection \<open>The except clauses\<close>

lemma poll_dag_run_preserves:
  assumes "poll_dag_run d inb w = Some y"
  shows "outcome_count (snd y) = outcome_count w \<and> xcom_set (snd y) = xcom_set w
         \<and> body_runs (snd y) = body_runs w"
proof (rule poll_dag_run.raw_induct[where P = "\<lambda>d inb w y. outcome_count (snd y) = outcome_count w
         \<and> xcom_set (snd y) = xcom_set w \<and> body_runs (snd y) = body_runs w", OF _ assms])
  fix poll :: "drte \<Rightarrow> (nat \<Rightarrow> to_task) \<Rightarrow> world \<Rightarrow> ((exn + bool) \<times> world) option"
    and d inb w y
  assume IH: "\<And>d inb w y. poll d inb w = Some y \<Longrightarrow> outcome_count (snd y) = outcome_count w
         \<and> xcom_set (snd y) = xcom_set w \<and> body_runs (snd y) = body_runs w"
    and eq: "(case get_message inb (send_request (GetDagRunState (trigger_dag_id d) (dag_run_id d)) w) of
        (comms_msg, w') \<Rightarrow>
          (case comms_msg of
             DagRunStateResult s \<Rightarrow>
               if s \<in> set (failed_states d) then Some (Inr True, w')
               else if s \<in> set (allowed_states d) then Some (Inr False, w')
               else poll d inb w'
           | _ \<Rightarrow> Some (Inl AttributeError, w'))) = Some y"
  let ?w' = "(send_request (GetDagRunState (trigger_dag_id d) (dag_run_id d)) w)\<lparr>received := Suc (received w)\<rparr>"
  have w': "outcome_count ?w' = outcome_count w \<and> xcom_set ?w' = xcom_set w \<and> body_runs ?w' = body_runs w"
    by (simp add: outcome_count_send)
  from eq have "y = (Inr True, ?w') \<or> y = (Inr False, ?w') \<or> y = (Inl AttributeError, ?w')
      \<or> poll d inb ?w' = Some y"
    by (auto simp: get_message_def split: to_task.splits if_splits)
  then show "outcome_count (snd y) = outcome_count w
         \<and> xcom_set (snd y) = xcom_set w \<and> body_runs (snd y) = body_runs w"
    using w' IH[of d inb ?w' y] by auto
qed

lemma handle_trigger_dag_run_preserves:
  assumes "handle_trigger_dag_run d en w = Some (r, w')"
  shows "outcome_count w' = outcome_count w \<and> body_runs w' = body_runs w
         \<and> (\<forall>msg st. r = Inr (msg, st) \<longrightarrow> is_outcome_msg msg)"
proof (cases "inbox en (received w) = ErrorResponse DAGRUN_ALREADY_EXISTS")
  case True
  with assms show ?thesis
    by (auto simp: handle_trigger_dag_run_def get_message_def outcome_count_send split: if_splits)
next
  case False
  show ?thesis
  proof (cases "wait_for_completion d")
    case nowait: False
    with assms False show ?thesis
      by (auto simp: handle_trigger_dag_run_def get_message_def outcome_count_send xcom_push_def
          handle_current_task_success_def)
  next
    case wait: True
    let ?w2 = "xcom_push ''trigger_run_id'' (VStr (dag_run_id d))
        ((send_request (TriggerDagRun (trigger_dag_id d) (dag_run_id d) (logical_date d)
                              (conf d) (reset_dag_run d)) w)\<lparr>received := Suc (received w)\<rparr>)"
    have w2: "outcome_count ?w2 = outcome_count w \<and> body_runs ?w2 = body_runs w"
      by (simp add: xcom_push_def outcome_count_send)
    from assms False wait obtain y where y: "poll_dag_run d (inbox en) ?w2 = Some y"
      and r: "(r, w') = (case y of (Inl e, w3) \<Rightarrow> (Inl e, w3)
            | (Inr failed, w3) \<Rightarrow> if failed then (Inr (TaskState FAILED, FAILED), w3)
                else (Inr handle_current_task_success, w3))"
      by (auto simp: handle_trigger_dag_run_def get_message_def split: option.splits sum.splits if_splits)
    from poll_dag_run_preserves[OF y] w2 r show ?thesis
      by (auto simp: handle_current_task_success_def split: prod.splits sum.splits if_splits)
  qed
qed

lemma handle_exception_preserves:
  assumes "handle_exception e ti en w = Some (r, w')"
  shows "outcome_count w' = outcome_count w \<and> body_runs w' = body_runs w
         \<and> (\<forall>msg st err. r = Inr (msg, st, err) \<longrightarrow> (\<exists>m. msg = Some m \<and> is_outcome_msg m))"
proof (cases "is_trigger e")
  case True
  then obtain d where e: "e = DagRunTriggerException d" by (cases e) auto
  with assms obtain r' where h: "handle_trigger_dag_run d en w = Some (r', w')"
    and r: "r = (case r' of Inl e' \<Rightarrow> Inl e' | Inr (msg, state) \<Rightarrow> Inr (Some msg, state, None))"
    by (auto split: option.splits sum.splits prod.splits)
  from handle_trigger_dag_run_preserves[OF h] r show ?thesis
    by (auto split: sum.splits)
next
  case False
  with assms show ?thesis
    by (cases e)
      (auto simp: retry_or_fail_def handle_current_task_failed_state outcome_count_send
        handle_current_task_success_def Let_def)
qed


subsection \<open>xcom_pull\<close>

lemma map_product_concat:
  "map f (List.product ts ms) = concat (map (\<lambda>t. map (\<lambda>m. f (t, m)) ms) ts)"
  by (induction ts) (simp_all add: comp_def)

lemma xcom_pull_resolved:
  assumes "resolve_task_ids ti task_ids = ts"
      and "resolve_map_indexes ti map_indexes = Inr ms"
      and "did = (case dag_id_arg of None \<Rightarrow> dag_id ti | Some d \<Rightarrow> d)"
      and "rid = (case run_id_arg of None \<Rightarrow> run_id ti | Some r \<Rightarrow> r)"
  shows "xcom_pull get_one ti task_ids dag_id_arg key ipd map_indexes dflt run_id_arg =
      (if length ts = 1 \<and> length ms = 1
       then Inr (map (pull_one get_one rid key did ipd dflt) (List.product ts ms) ! 0)
       else Inr (VList (map (pull_one get_one rid key did ipd dflt) (List.product ts ms))))"
  using assms by (simp add: xcom_pull_def Let_def)

section \<open>The claims\<close>

subsection \<open>One outcome message for each attempt\<close>




subsection \<open>Errors of the task body\<close>

text \<open>
  C2, as amended. When the task body raises an error that reaches a clause calling
  \<^verbatim>\<open>_handle_current_task_failed\<close> (the timeout signal, any other \<^verbatim>\<open>AirflowException\<close>,
  \<^verbatim>\<open>SystemExit\<close>, or anything only \<^verbatim>\<open>except BaseException\<close> catches), the outcome is
  \<open>UP_FOR_RETRY\<close> with a \<open>RetryTask\<close> report if the run context allows a retry, and \<open>FAILED\<close>
  with a \<open>TaskState FAILED\<close> report otherwise. When it raises \<^verbatim>\<open>AirflowTaskTerminated\<close>, the
  outcome is \<open>FAILED\<close> whatever the run context says.
\<close>

theorem retry_iff_should_retry:
  assumes "body_reached ti en"
      and "select_execute ti en = Inl e"
      and "state = (if retry_allowed ti then UP_FOR_RETRY else FAILED)"
      and "msg = (if retry_allowed ti then RetryTask else TaskState FAILED)"
  shows "(retry_clause e \<longrightarrow>
            run ti en w = Some (Inr (state, Some msg, Some e),
                                send_request msg (world_after_body ti en w)))
       \<and> (e = AirflowTaskTerminated \<longrightarrow>
            run ti en w = Some (Inr (FAILED, Some (TaskState FAILED), Some e),
                                send_request (TaskState FAILED) (world_after_body ti en w)))"
  using assms(3,4)
  by (auto simp: run_body_raises[OF assms(1,2)] handle_exception_retry_clause retry_or_fail_def
      handle_current_task_failed_state finally_send_def)

theorem retry_iff_should_retry_witness:
  "run ex_ti (ex_env\<lparr>execute_body := Inl AirflowTaskTimeout\<rparr>) w0 =
     Some (Inr (UP_FOR_RETRY, Some RetryTask, Some AirflowTaskTimeout),
           w0\<lparr>sent := [RetryTask], body_runs := 1\<rparr>)
   \<and> run (ex_ti\<lparr>ti_context_from_server := None\<rparr>) (ex_env\<lparr>execute_body := Inl AirflowTaskTimeout\<rparr>) w0 =
     Some (Inr (FAILED, Some (TaskState FAILED), Some AirflowTaskTimeout),
           w0\<lparr>sent := [TaskState FAILED], body_runs := 1\<rparr>)
   \<and> run ex_ti (ex_env\<lparr>execute_body := Inl AirflowTaskTerminated\<rparr>) w0 =
     Some (Inr (FAILED, Some (TaskState FAILED), Some AirflowTaskTerminated),
           w0\<lparr>sent := [TaskState FAILED], body_runs := 1\<rparr>)"
  using retry_iff_should_retry[of ex_ti "ex_env\<lparr>execute_body := Inl AirflowTaskTimeout\<rparr>"
      AirflowTaskTimeout UP_FOR_RETRY RetryTask w0]
    retry_iff_should_retry[of "ex_ti\<lparr>ti_context_from_server := None\<rparr>"
      "ex_env\<lparr>execute_body := Inl AirflowTaskTimeout\<rparr>" AirflowTaskTimeout FAILED "TaskState FAILED" w0]
    retry_iff_should_retry[of ex_ti "ex_env\<lparr>execute_body := Inl AirflowTaskTerminated\<rparr>"
      AirflowTaskTerminated UP_FOR_RETRY RetryTask w0]
  by (simp add: body_reached_def select_execute_def ex_ti_def ex_env_def ex_task_def w0_def
      world_after_body_def clear_xcom_keys_def prepare_def send_request_def retry_allowed_def)

text \<open>
  C2, as stated, fails: the body raises \<^verbatim>\<open>AirflowTaskTerminated\<close>, an uncaught condition that
  is none of the declared signals, the run context allows a retry, and the outcome is
  \<open>FAILED\<close>.
\<close>

theorem terminated_not_retried:
  "select_execute ex_ti (ex_env\<lparr>execute_body := Inl AirflowTaskTerminated\<rparr>) = Inl AirflowTaskTerminated
   \<and> retry_allowed ex_ti
   \<and> run ex_ti (ex_env\<lparr>execute_body := Inl AirflowTaskTerminated\<rparr>) w0 =
       Some (Inr (FAILED, Some (TaskState FAILED), Some AirflowTaskTerminated),
             w0\<lparr>sent := [TaskState FAILED], body_runs := 1\<rparr>)"
  by (simp add: run_def try_block_def execute_task_def run_body_def select_execute_def ex_ti_def
      ex_env_def ex_task_def w0_def clear_xcom_keys_def prepare_def send_request_def
      retry_allowed_def finally_send_def)

text \<open>
  C3. When the task body raises \<^verbatim>\<open>AirflowFailException\<close> or \<^verbatim>\<open>AirflowSensorTimeout\<close>, the
  outcome is \<open>FAILED\<close>, reported as \<open>TaskState FAILED\<close>, whether or not the run context allows
  a retry.
\<close>

theorem fail_signals_never_retry:
  assumes "body_reached ti en"
      and "select_execute ti en = Inl e"
      and "e = AirflowFailException \<or> e = AirflowSensorTimeout"
  shows "run ti en w = Some (Inr (FAILED, Some (TaskState FAILED), Some e),
                             send_request (TaskState FAILED) (world_after_body ti en w))"
  using assms(3) by (auto simp: run_body_raises[OF assms(1,2)] finally_send_def)

theorem fail_signals_never_retry_witness:
  "retry_allowed ex_ti
   \<and> run ex_ti (ex_env\<lparr>execute_body := Inl AirflowFailException\<rparr>) w0 =
       Some (Inr (FAILED, Some (TaskState FAILED), Some AirflowFailException),
             w0\<lparr>sent := [TaskState FAILED], body_runs := 1\<rparr>)"
  using fail_signals_never_retry[of ex_ti "ex_env\<lparr>execute_body := Inl AirflowFailException\<rparr>"
      AirflowFailException w0]
  by (simp add: body_reached_def select_execute_def ex_ti_def ex_env_def ex_task_def w0_def
      world_after_body_def clear_xcom_keys_def prepare_def send_request_def retry_allowed_def)

subsection \<open>Errors of the preparation step\<close>

text \<open>
  C4, as stated, fails: \<^verbatim>\<open>_prepare\<close> raises an error that only \<^verbatim>\<open>except BaseException\<close>
  catches (a template that does not render), the run context allows a retry, and the
  outcome is \<open>UP_FOR_RETRY\<close>.
\<close>

theorem prepare_error_retried:
  "run ex_ti (ex_env\<lparr>prepare_raises := Some (OtherBaseException ''UndefinedError'')\<rparr>) w0 =
     Some (Inr (UP_FOR_RETRY, Some RetryTask, Some (OtherBaseException ''UndefinedError'')),
           w0\<lparr>sent := [RetryTask]\<rparr>)"
  by (simp add: ex_defs step_defs retry_or_fail_def handle_current_task_failed_def)

text \<open>
  C4, as amended. When \<^verbatim>\<open>_prepare\<close> raises, the \<^verbatim>\<open>try\<close> block ends with that error before
  \<^verbatim>\<open>_execute_task\<close> is called, so the task body is never executed, whatever \<^verbatim>\<open>run\<close> does
  next; the error is handled by the \<^verbatim>\<open>except\<close> clauses like an error of the task body: an
  error that reaches a clause calling \<^verbatim>\<open>_handle_current_task_failed\<close> gives \<open>UP_FOR_RETRY\<close>
  if the run context allows a retry and \<open>FAILED\<close> otherwise, and the fail-without-retry,
  sensor-timeout and task-terminated signals give \<open>FAILED\<close>.
\<close>

theorem prepare_error_dispatch:
  assumes "prepare_raises en = Some e"
      and "state = (if retry_allowed ti then UP_FOR_RETRY else FAILED)"
      and "msg = (if retry_allowed ti then RetryTask else TaskState FAILED)"
  shows "try_block ti en w = (Inl e, clear_xcom_keys ti w)
       \<and> (\<forall>r w'. run ti en w = Some (r, w') \<longrightarrow> body_runs w' = body_runs w)
       \<and> (retry_clause e \<longrightarrow>
            run ti en w = Some (Inr (state, Some msg, Some e), send_request msg (clear_xcom_keys ti w)))
       \<and> (e = AirflowFailException \<or> e = AirflowSensorTimeout \<or> e = AirflowTaskTerminated \<longrightarrow>
            run ti en w = Some (Inr (FAILED, Some (TaskState FAILED), Some e),
                                send_request (TaskState FAILED) (clear_xcom_keys ti w)))"
proof -
  have t: "try_block ti en w = (Inl e, clear_xcom_keys ti w)"
    using assms(1) by (simp add: try_block_unfold)
  have b: "body_runs w' = body_runs w" if "run ti en w = Some (r, w')" for r w'
  proof -
    from that t obtain r2 w2 where h: "handle_exception e ti en (clear_xcom_keys ti w) = Some (r2, w2)"
      and w': "w' = w2 \<or> (\<exists>m. w' = finally_send m w2)"
      by (auto simp: run_def split: option.splits sum.splits prod.splits)
    from handle_exception_preserves[OF h] w' show ?thesis by auto
  qed
  have r: "retry_clause e \<longrightarrow>
      run ti en w = Some (Inr (state, Some msg, Some e), send_request msg (clear_xcom_keys ti w))"
    using assms(2,3)
    by (auto simp: run_def t handle_exception_retry_clause retry_or_fail_def
        handle_current_task_failed_state finally_send_def)
  have f: "e = AirflowFailException \<or> e = AirflowSensorTimeout \<or> e = AirflowTaskTerminated \<longrightarrow>
      run ti en w = Some (Inr (FAILED, Some (TaskState FAILED), Some e),
                          send_request (TaskState FAILED) (clear_xcom_keys ti w))"
    by (auto simp: run_def t finally_send_def)
  show ?thesis using t b r f by blast
qed

theorem prepare_error_dispatch_witness:
  "run ex_ti (ex_env\<lparr>prepare_raises := Some AirflowException\<rparr>) w0 =
     Some (Inr (UP_FOR_RETRY, Some RetryTask, Some AirflowException), w0\<lparr>sent := [RetryTask]\<rparr>)
   \<and> run ex_ti (ex_env\<lparr>prepare_raises := Some AirflowFailException\<rparr>) w0 =
     Some (Inr (FAILED, Some (TaskState FAILED), Some AirflowFailException), w0\<lparr>sent := [TaskState FAILED]\<rparr>)"
  using prepare_error_dispatch[of "ex_env\<lparr>prepare_raises := Some AirflowException\<rparr>" AirflowException
      UP_FOR_RETRY ex_ti RetryTask w0]
    prepare_error_dispatch[of "ex_env\<lparr>prepare_raises := Some AirflowFailException\<rparr>" AirflowFailException
      UP_FOR_RETRY ex_ti RetryTask w0]
  by (simp add: ex_defs retry_allowed_def clear_xcom_keys_def send_request_def)

subsection \<open>The execution deadline\<close>

text \<open>
  C5, at the failing input: with \<^verbatim>\<open>execution_timeout = timedelta(0)\<close> the deadline is
  configured and the budget is \<open>0\<close>, yet \<^verbatim>\<open>if task.execution_timeout:\<close> is false, the
  fast-fail test \<^verbatim>\<open>timeout_seconds <= 0\<close> is never reached, the body is run without a deadline
  and the attempt succeeds.
\<close>

theorem zero_timeout_runs_body:
  "execution_timeout (task zero_timeout_ti) = Some 0
   \<and> execute_task zero_timeout_ti ex_env w0 = (Inr (VInt 42), w0\<lparr>body_runs := 1\<rparr>)
   \<and> run zero_timeout_ti ex_env w0 =
       Some (Inr (SUCCESS, Some SucceedTask, None),
             w0\<lparr>sent := [SucceedTask], xcom_set := [(''return_value'', VInt 42, None)],
                body_runs := 1\<rparr>)"
  by (simp add: zero_timeout_ti_def ex_defs step_defs)

subsection \<open>xcom_pull\<close>

text \<open>
  C6. With \<open>ts\<close> the task ids and \<open>ms\<close> the map indexes that \<^verbatim>\<open>xcom_pull\<close> resolves its
  arguments to: when both are singletons, the result is the one value looked up, or the
  default when the lookup gives \<^verbatim>\<open>None\<close>; when either has two elements or more, the result
  is the list over the product of \<open>ts\<close> and \<open>ms\<close>, task ids outermost, both in the order
  given, each \<^verbatim>\<open>None\<close> replaced by the default; and two task ids with \<^verbatim>\<open>map_indexes\<close>
  not set give the list of the two lookups at the caller's map index, in the order of the
  task ids.
\<close>

theorem xcom_pull_scalar_or_list:
  assumes "resolve_task_ids ti task_ids = ts"
      and "resolve_map_indexes ti map_indexes = Inr ms"
      and "did = (case dag_id_arg of None \<Rightarrow> dag_id ti | Some d \<Rightarrow> d)"
      and "rid = (case run_id_arg of None \<Rightarrow> run_id ti | Some r \<Rightarrow> r)"
      and "lookup = (\<lambda>t m. get_one \<lparr>q_run_id = rid, q_key = key, q_task_id = t, q_dag_id = did,
                                    q_map_index = m, q_include_prior_dates = ipd\<rparr>)"
      and "subst = (\<lambda>v. if v = VNone then dflt else v)"
  shows "(\<forall>t m. ts = [t] \<and> ms = [m] \<longrightarrow>
            xcom_pull get_one ti task_ids dag_id_arg key ipd map_indexes dflt run_id_arg
              = Inr (subst (lookup t m)))
       \<and> (2 \<le> length ts \<or> 2 \<le> length ms \<longrightarrow>
            xcom_pull get_one ti task_ids dag_id_arg key ipd map_indexes dflt run_id_arg
              = Inr (VList (concat (map (\<lambda>t. map (\<lambda>m. subst (lookup t m)) ms) ts))))
       \<and> (\<forall>a b. task_ids = TaskIdsIter [a, b] \<and> map_indexes = NOTSET \<longrightarrow>
            xcom_pull get_one ti task_ids dag_id_arg key ipd map_indexes dflt run_id_arg
              = Inr (VList [subst (lookup a (map_index ti)), subst (lookup b (map_index ti))]))"
proof -
  let ?f = "pull_one get_one rid key did ipd dflt"
  have f: "?f (t, m) = subst (lookup t m)" for t m
    by (simp add: pull_one_def assms(5,6) Let_def)
  note pull = xcom_pull_resolved[OF assms(1-4), of get_one key ipd dflt]
  have list: "map ?f (List.product ts ms) = concat (map (\<lambda>t. map (\<lambda>m. subst (lookup t m)) ms) ts)"
    by (simp add: map_product_concat f)
  have one: "ts = [t] \<and> ms = [m] \<longrightarrow>
      xcom_pull get_one ti task_ids dag_id_arg key ipd map_indexes dflt run_id_arg = Inr (subst (lookup t m))" for t m
    using pull f by simp
  have many: "2 \<le> length ts \<or> 2 \<le> length ms \<longrightarrow>
      xcom_pull get_one ti task_ids dag_id_arg key ipd map_indexes dflt run_id_arg
        = Inr (VList (concat (map (\<lambda>t. map (\<lambda>m. subst (lookup t m)) ms) ts)))"
    using pull list by auto
  have two: "task_ids = TaskIdsIter [a, b] \<and> map_indexes = NOTSET \<longrightarrow>
      xcom_pull get_one ti task_ids dag_id_arg key ipd map_indexes dflt run_id_arg
        = Inr (VList [subst (lookup a (map_index ti)), subst (lookup b (map_index ti))])" for a b
    using assms(1,2) many by (auto simp: resolve_task_ids_def resolve_map_indexes_def)
  show ?thesis using one many two by blast
qed

theorem xcom_pull_scalar_or_list_witness:
  "xcom_pull (XCom_get_one ex_store) ex_ti (TaskIdsStr ''a'') None ''return_value'' False NOTSET
      (VStr ''nothing'') None = Inr (VInt 42)
   \<and> xcom_pull (XCom_get_one ex_store) ex_ti (TaskIdsIter [''a'', ''b'']) None ''return_value'' False NOTSET
      (VStr ''nothing'') None = Inr (VList [VInt 42, VStr ''nothing''])
   \<and> xcom_pull (XCom_get_one ex_store) ex_ti (TaskIdsIter [''b'', ''a'']) None ''return_value'' False
      (MapIndexesIter [Some 0, Some (- 1)]) (VStr ''nothing'') None
        = Inr (VList [VStr ''nothing'', VStr ''nothing'', VStr ''nothing'', VInt 42])"
proof -
  have ms: "resolve_map_indexes ex_ti NOTSET = Inr [Some (- 1)]"
    by (simp add: resolve_map_indexes_def ex_ti_def)
  have ms2: "resolve_map_indexes ex_ti (MapIndexesIter [Some 0, Some (- 1)]) = Inr [Some 0, Some (- 1)]"
    by (simp add: resolve_map_indexes_def)
  have ts1: "resolve_task_ids ex_ti (TaskIdsStr ''a'') = [''a'']"
    by (simp add: resolve_task_ids_def)
  have ts2: "resolve_task_ids ex_ti (TaskIdsIter [''a'', ''b'']) = [''a'', ''b'']"
    by (simp add: resolve_task_ids_def)
  have ts3: "resolve_task_ids ex_ti (TaskIdsIter [''b'', ''a'']) = [''b'', ''a'']"
    by (simp add: resolve_task_ids_def)
  have ids: "dag_id ex_ti = ''dag''" "run_id ex_ti = ''run1''" "map_index ex_ti = Some (- 1)"
    by (simp_all add: ex_ti_def)
  note one = xcom_pull_scalar_or_list[OF ts1 ms refl refl refl refl, THEN conjunct1, rule_format,
      of "''a''" "Some (- 1)", where dag_id_arg = None and run_id_arg = None
        and get_one = "XCom_get_one ex_store" and key = "''return_value''" and ipd = False
        and dflt = "VStr ''nothing''"]
  note two = xcom_pull_scalar_or_list[OF ts2 ms refl refl refl refl, THEN conjunct2, THEN conjunct2,
      rule_format, of "''a''" "''b''", where dag_id_arg = None and run_id_arg = None
        and get_one = "XCom_get_one ex_store" and key = "''return_value''" and ipd = False
        and dflt = "VStr ''nothing''"]
  note many = xcom_pull_scalar_or_list[OF ts3 ms2 refl refl refl refl, THEN conjunct2, THEN conjunct1,
      rule_format, where dag_id_arg = None and run_id_arg = None
        and get_one = "XCom_get_one ex_store" and key = "''return_value''" and ipd = False
        and dflt = "VStr ''nothing''"]
  have a: "xcom_pull (XCom_get_one ex_store) ex_ti (TaskIdsStr ''a'') None ''return_value'' False NOTSET
      (VStr ''nothing'') None = Inr (VInt 42)"
    using one by (simp add: ids XCom_get_one_def ex_store_def)
  have b: "xcom_pull (XCom_get_one ex_store) ex_ti (TaskIdsIter [''a'', ''b'']) None ''return_value'' False NOTSET
      (VStr ''nothing'') None = Inr (VList [VInt 42, VStr ''nothing''])"
    using two by (simp add: ids XCom_get_one_def ex_store_def)
  have c: "xcom_pull (XCom_get_one ex_store) ex_ti (TaskIdsIter [''b'', ''a'']) None ''return_value'' False
      (MapIndexesIter [Some 0, Some (- 1)]) (VStr ''nothing'') None
        = Inr (VList [VStr ''nothing'', VStr ''nothing'', VStr ''nothing'', VInt 42])"
    using many by (simp add: ids XCom_get_one_def ex_store_def)
  from a b c show ?thesis by simp
qed

text \<open>
  C10. Wherever \<^verbatim>\<open>XCom.get_one\<close> returns \<^verbatim>\<open>None\<close>, \<^verbatim>\<open>xcom_pull\<close> has the default in
  that place: as its result when one pair is requested, as the element at that position of
  the list otherwise. Hence a store that holds \<^verbatim>\<open>None\<close> at a key and a store without that
  key give the same result for every call.
\<close>

theorem xcom_pull_none_is_default:
  assumes "resolve_task_ids ti task_ids = ts"
      and "resolve_map_indexes ti map_indexes = Inr ms"
      and "did = (case dag_id_arg of None \<Rightarrow> dag_id ti | Some d \<Rightarrow> d)"
      and "rid = (case run_id_arg of None \<Rightarrow> run_id ti | Some r \<Rightarrow> r)"
      and "query = (\<lambda>tm. \<lparr>q_run_id = rid, q_key = key, q_task_id = fst tm, q_dag_id = did,
                           q_map_index = snd tm, q_include_prior_dates = ipd\<rparr>)"
      and "pairs = List.product ts ms"
  shows "(\<forall>tm. pairs = [tm] \<and> get_one (query tm) = VNone \<longrightarrow>
            xcom_pull get_one ti task_ids dag_id_arg key ipd map_indexes dflt run_id_arg = Inr dflt)
       \<and> (length pairs \<noteq> 1 \<longrightarrow>
            (\<exists>vs. xcom_pull get_one ti task_ids dag_id_arg key ipd map_indexes dflt run_id_arg
                    = Inr (VList vs)
                \<and> length vs = length pairs
                \<and> (\<forall>i<length pairs. get_one (query (pairs ! i)) = VNone \<longrightarrow> vs ! i = dflt)))
       \<and> xcom_pull (XCom_get_one (store(q \<mapsto> VNone))) ti task_ids dag_id_arg key ipd map_indexes dflt run_id_arg
         = xcom_pull (XCom_get_one (store(q := None))) ti task_ids dag_id_arg key ipd map_indexes dflt run_id_arg"
proof -
  let ?f = "pull_one get_one rid key did ipd dflt"
  note pull = xcom_pull_resolved[OF assms(1-4), of get_one key ipd dflt]
  have f: "get_one (query tm) = VNone \<Longrightarrow> ?f tm = dflt" for tm
    by (simp add: pull_one_def assms(5) Let_def)
  have len: "(length ts = 1 \<and> length ms = 1) = (length pairs = 1)"
    by (simp add: assms(6))
  have one: "pairs = [tm] \<and> get_one (query tm) = VNone \<longrightarrow>
      xcom_pull get_one ti task_ids dag_id_arg key ipd map_indexes dflt run_id_arg = Inr dflt" for tm
  proof
    assume a: "pairs = [tm] \<and> get_one (query tm) = VNone"
    then have "length pairs = 1" by simp
    with len have "length ts = 1 \<and> length ms = 1" by simp
    with pull a f[of tm] show "xcom_pull get_one ti task_ids dag_id_arg key ipd map_indexes dflt run_id_arg = Inr dflt"
      using assms(6) by simp
  qed
  have many: "length pairs \<noteq> 1 \<longrightarrow>
      (\<exists>vs. xcom_pull get_one ti task_ids dag_id_arg key ipd map_indexes dflt run_id_arg = Inr (VList vs)
          \<and> length vs = length pairs
          \<and> (\<forall>i<length pairs. get_one (query (pairs ! i)) = VNone \<longrightarrow> vs ! i = dflt))"
  proof
    assume "length pairs \<noteq> 1"
    with len have "\<not> (length ts = 1 \<and> length ms = 1)" by simp
    with pull have "xcom_pull get_one ti task_ids dag_id_arg key ipd map_indexes dflt run_id_arg
        = Inr (VList (map ?f pairs))"
      using assms(6) by auto
    moreover have "\<forall>i<length pairs. get_one (query (pairs ! i)) = VNone \<longrightarrow> map ?f pairs ! i = dflt"
      using f by simp
    ultimately show "\<exists>vs. xcom_pull get_one ti task_ids dag_id_arg key ipd map_indexes dflt run_id_arg
          = Inr (VList vs) \<and> length vs = length pairs
          \<and> (\<forall>i<length pairs. get_one (query (pairs ! i)) = VNone \<longrightarrow> vs ! i = dflt)"
      by simp
  qed
  have "XCom_get_one (store(q \<mapsto> VNone)) = XCom_get_one (store(q := None))"
    by (rule ext) (simp add: XCom_get_one_def)
  then have same: "xcom_pull (XCom_get_one (store(q \<mapsto> VNone))) ti task_ids dag_id_arg key ipd map_indexes dflt run_id_arg
      = xcom_pull (XCom_get_one (store(q := None))) ti task_ids dag_id_arg key ipd map_indexes dflt run_id_arg"
    by (simp only:)
  show ?thesis
    by (intro conjI allI) (rule one, rule many, rule same)
qed

theorem xcom_pull_none_is_default_witness:
  "xcom_pull (XCom_get_one (ex_store(ex_query \<mapsto> VNone))) ex_ti (TaskIdsStr ''b'') None ''return_value''
      False NOTSET (VStr ''nothing'') None = Inr (VStr ''nothing'')
   \<and> xcom_pull (XCom_get_one (ex_store(ex_query \<mapsto> VNone))) ex_ti (TaskIdsStr ''b'') None
      ''return_value'' False NOTSET (VStr ''nothing'') None
     = xcom_pull (XCom_get_one (ex_store(ex_query := None))) ex_ti (TaskIdsStr ''b'') None
      ''return_value'' False NOTSET (VStr ''nothing'') None"
proof -
  have ts: "resolve_task_ids ex_ti (TaskIdsStr ''b'') = [''b'']"
    by (simp add: resolve_task_ids_def)
  have ms: "resolve_map_indexes ex_ti NOTSET = Inr [Some (- 1)]"
    by (simp add: resolve_map_indexes_def ex_ti_def)
  note t = xcom_pull_none_is_default[OF ts ms refl refl refl refl,
      where dag_id_arg = None and run_id_arg = None and key = "''return_value''" and ipd = False
        and get_one = "XCom_get_one (ex_store(ex_query \<mapsto> VNone))" and dflt = "VStr ''nothing''"
        and store = ex_store and q = ex_query]
  note a0 = t[THEN conjunct1, rule_format, of "(''b'', Some (- 1))"]
  have a: "xcom_pull (XCom_get_one (ex_store(ex_query \<mapsto> VNone))) ex_ti (TaskIdsStr ''b'') None
      ''return_value'' False NOTSET (VStr ''nothing'') None = Inr (VStr ''nothing'')"
    by (rule a0) (simp add: XCom_get_one_def ex_query_def ex_ti_def)
  note b = t[THEN conjunct2, THEN conjunct2]
  from a b show ?thesis by (rule conjI)
qed

subsection \<open>Pushing the return value\<close>



text \<open>
  C8, as stated, fails: with \<^verbatim>\<open>multiple_outputs\<close> set and \<^verbatim>\<open>do_xcom_push\<close> not set, a task
  that returns a list raises no error, and nothing is pushed.
\<close>

theorem multiple_outputs_without_push:
  "push_xcom_if_needed (VList [VInt 1, VInt 2])
      (ex_ti\<lparr>task := ex_task\<lparr>do_xcom_push := False, multiple_outputs := True\<rparr>\<rparr>) ex_env w0
     = (Inr (), w0)"
  by (simp add: push_xcom_if_needed_def ex_defs)

text \<open>
  C8, as amended. For a task with \<^verbatim>\<open>do_xcom_push\<close> set that returns a value other than
  \<^verbatim>\<open>None\<close> (a mappable one, when the task is mapped or has a mapped dependant): with
  \<^verbatim>\<open>multiple_outputs\<close>, a value that is not a mapping with string keys only raises
  \<^verbatim>\<open>TypeError\<close> before anything is pushed, and a mapping with string keys is pushed key by
  key, in order, and then as a whole under \<^verbatim>\<open>return_value\<close>; without \<^verbatim>\<open>multiple_outputs\<close>,
  a list is pushed once, under \<^verbatim>\<open>return_value\<close>.
\<close>

theorem multiple_outputs_push:
  assumes "do_xcom_push (task ti)"
      and "result \<noteq> VNone"
      and "mapped = (has_mapped_dependants (task ti) \<or> is_mapped (task ti))"
      and "mapped \<longrightarrow> is_mappable_value en result"
  shows "(multiple_outputs (task ti) \<and>
            (\<forall>kvs. result = VDict kvs \<longrightarrow> \<not> list_all (\<lambda>kv. is_str (fst kv)) kvs) \<longrightarrow>
            push_xcom_if_needed result ti en w = (Inl TypeError, w))
       \<and> (\<forall>kvs. multiple_outputs (task ti) \<and> result = VDict kvs \<and> list_all (\<lambda>kv. is_str (fst kv)) kvs \<longrightarrow>
            fst (push_xcom_if_needed result ti en w) = Inr ()
          \<and> xcom_set (snd (push_xcom_if_needed result ti en w)) =
              xcom_set w @ map (\<lambda>kv. (str_of (fst kv), snd kv, None)) kvs
                @ [(''return_value'', result, if mapped then Some (length kvs) else None)])
       \<and> (\<forall>xs. \<not> multiple_outputs (task ti) \<and> result = VList xs \<longrightarrow>
            fst (push_xcom_if_needed result ti en w) = Inr ()
          \<and> xcom_set (snd (push_xcom_if_needed result ti en w)) =
              xcom_set w @ [(''return_value'', result, if mapped then Some (length xs) else None)])"
proof (intro conjI allI impI)
  assume a: "multiple_outputs (task ti) \<and>
      (\<forall>kvs. result = VDict kvs \<longrightarrow> \<not> list_all (\<lambda>kv. is_str (fst kv)) kvs)"
  show "push_xcom_if_needed result ti en w = (Inl TypeError, w)"
    using a assms
    by (cases result) (auto simp: push_xcom_if_needed_def Let_def split: option.splits)
next
  fix kvs
  assume a: "multiple_outputs (task ti) \<and> result = VDict kvs \<and> list_all (\<lambda>kv. is_str (fst kv)) kvs"
  show "fst (push_xcom_if_needed result ti en w) = Inr ()"
    using a assms by (auto simp: push_xcom_if_needed_def Let_def)
  show "xcom_set (snd (push_xcom_if_needed result ti en w)) =
      xcom_set w @ map (\<lambda>kv. (str_of (fst kv), snd kv, None)) kvs
        @ [(''return_value'', result, if mapped then Some (length kvs) else None)]"
    using a assms by (auto simp: push_xcom_if_needed_def Let_def)
next
  fix xs
  assume a: "\<not> multiple_outputs (task ti) \<and> result = VList xs"
  show "fst (push_xcom_if_needed result ti en w) = Inr ()"
    using a assms by (auto simp: push_xcom_if_needed_def Let_def)
  show "xcom_set (snd (push_xcom_if_needed result ti en w)) =
      xcom_set w @ [(''return_value'', result, if mapped then Some (length xs) else None)]"
    using a assms by (auto simp: push_xcom_if_needed_def Let_def)
qed

theorem multiple_outputs_push_witness:
  "push_xcom_if_needed (VList [VInt 1, VInt 2]) (ex_ti\<lparr>task := ex_task\<lparr>multiple_outputs := True\<rparr>\<rparr>) ex_env w0
     = (Inl TypeError, w0)
   \<and> push_xcom_if_needed (VDict [(VInt 1, VInt 2)]) (ex_ti\<lparr>task := ex_task\<lparr>multiple_outputs := True\<rparr>\<rparr>) ex_env w0
     = (Inl TypeError, w0)
   \<and> xcom_set (snd (push_xcom_if_needed (VDict [(VStr ''a'', VInt 1), (VStr ''b'', VInt 2)])
        (ex_ti\<lparr>task := ex_task\<lparr>multiple_outputs := True\<rparr>\<rparr>) ex_env w0))
     = [(''a'', VInt 1, None), (''b'', VInt 2, None),
        (''return_value'', VDict [(VStr ''a'', VInt 1), (VStr ''b'', VInt 2)], None)]
   \<and> xcom_set (snd (push_xcom_if_needed (VList [VInt 1, VInt 2]) ex_ti ex_env w0))
     = [(''return_value'', VList [VInt 1, VInt 2], None)]"
  using multiple_outputs_push[of "ex_ti\<lparr>task := ex_task\<lparr>multiple_outputs := True\<rparr>\<rparr>"
      "VList [VInt 1, VInt 2]" False ex_env w0]
    multiple_outputs_push[of "ex_ti\<lparr>task := ex_task\<lparr>multiple_outputs := True\<rparr>\<rparr>"
      "VDict [(VInt 1, VInt 2)]" False ex_env w0]
    multiple_outputs_push[of "ex_ti\<lparr>task := ex_task\<lparr>multiple_outputs := True\<rparr>\<rparr>"
      "VDict [(VStr ''a'', VInt 1), (VStr ''b'', VInt 2)]" False ex_env w0]
    multiple_outputs_push[of ex_ti "VList [VInt 1, VInt 2]" False ex_env w0]
  by (simp add: ex_defs)

subsection \<open>Triggering a run that already exists\<close>

text \<open>
  C9. When the body raises the trigger-run signal and the reply to the \<^verbatim>\<open>TriggerDagRun\<close>
  request is the error \<^verbatim>\<open>DAGRUN_ALREADY_EXISTS\<close>, the outcome is \<open>SKIPPED\<close> with
  \<^verbatim>\<open>skip_when_already_exists\<close> and \<open>FAILED\<close> without; the only messages sent are the request
  and the outcome report (no \<^verbatim>\<open>GetDagRunState\<close>), one reply is read, and nothing is pushed.
\<close>

theorem trigger_already_exists:
  assumes "body_reached ti en"
      and "select_execute ti en = Inl (DagRunTriggerException d)"
      and "inbox en (received w) = ErrorResponse DAGRUN_ALREADY_EXISTS"
      and "state = (if skip_when_already_exists d then SKIPPED else FAILED)"
  shows "\<exists>w'. run ti en w = Some (Inr (state, Some (TaskState state), None), w')
           \<and> sent w' = sent (world_after_body ti en w) @
                [TriggerDagRun (trigger_dag_id d) (dag_run_id d) (logical_date d) (conf d) (reset_dag_run d),
                 TaskState state]
           \<and> xcom_set w' = xcom_set w
           \<and> received w' = Suc (received w)"
proof -
  have r: "received (world_after_body ti en w) = received w"
    by (simp add: world_after_body_def)
  have x: "xcom_set (world_after_body ti en w) = xcom_set w"
    by (simp add: world_after_body_def)
  show ?thesis
    using assms(3,4) x
    by (simp add: run_body_raises[OF assms(1,2)] handle_trigger_dag_run_def get_message_def r
        finally_send_def)
qed

theorem trigger_already_exists_witness:
  "run ex_ti already_exists_env w0 =
     Some (Inr (SKIPPED, Some (TaskState SKIPPED), None),
           w0\<lparr>sent := [TriggerDagRun ''other'' ''manual_1'' None VNone False, TaskState SKIPPED],
              received := 1, body_runs := 1\<rparr>)"
  using trigger_already_exists[of ex_ti already_exists_env existing_drte w0 SKIPPED]
  by (simp add: already_exists_env_def existing_drte_def ex_defs body_reached_def select_execute_def
      world_after_body_def clear_xcom_keys_def prepare_def send_request_def run_def try_block_def
      execute_task_def run_body_def handle_trigger_dag_run_def get_message_def finally_send_def)

end
